theory Spec2Isabelle
  imports Main
begin

section \<open>JavaScript values and string helpers\<close>

text \<open>
  Tool inputs are the result of \<^verbatim>\<open>JSON.parse\<close>: a JSON value. Numbers are restricted to
  integers; objects are association lists in key order, the first binding of a key being the
  one a property read returns. A property read of a missing key is \<^verbatim>\<open>undefined\<close>, modelled
  as \<open>None\<close>.
\<close>

datatype json =
    JNull
  | JBool bool
  | JNum int
  | JStr string
  | JArr "json list"
  | JObj "(string \<times> json) list"

text \<open>\<^verbatim>\<open>input && typeof input === 'object' ? input : null\<close>: arrays are objects too; an array has
  no named properties.\<close>

fun asObject :: "json option \<Rightarrow> (string \<times> json) list option" where
  "asObject (Some (JObj kvs)) = Some kvs"
| "asObject (Some (JArr xs)) = Some []"
| "asObject _ = None"

definition getProp :: "(string \<times> json) list \<Rightarrow> string \<Rightarrow> json option" where
  "getProp obj k = map_of obj k"

text \<open>The nullish coalescing operator \<^verbatim>\<open>a ?? b\<close>: \<^verbatim>\<open>undefined\<close> and \<^verbatim>\<open>null\<close> fall through.\<close>

fun nullish :: "json option \<Rightarrow> json option \<Rightarrow> json option" where
  "nullish None b = b"
| "nullish (Some JNull) b = b"
| "nullish (Some v) b = Some v"

text \<open>
  Strings are sequences of bytes, the UTF-8 encoding of the JavaScript string.
  \<open>whiteSpace\<close> lists the encodings of the code points that \<^verbatim>\<open>String.prototype.trim\<close> strips:
  the white space and line terminator characters of ECMAScript (TAB, LF, VT, FF, CR, SP,
  U+00A0, U+1680, U+2000 to U+200A, U+2028, U+2029, U+202F, U+205F, U+3000, U+FEFF).
\<close>

definition whiteSpace :: "string list" where
  "whiteSpace =
     [[CHR 0x09], [CHR 0x0A], [CHR 0x0B], [CHR 0x0C], [CHR 0x0D], [CHR 0x20],
      [CHR 0xC2, CHR 0xA0], [CHR 0xE1, CHR 0x9A, CHR 0x80],
      [CHR 0xE2, CHR 0x80, CHR 0x80], [CHR 0xE2, CHR 0x80, CHR 0x81], [CHR 0xE2, CHR 0x80, CHR 0x82],
      [CHR 0xE2, CHR 0x80, CHR 0x83], [CHR 0xE2, CHR 0x80, CHR 0x84], [CHR 0xE2, CHR 0x80, CHR 0x85],
      [CHR 0xE2, CHR 0x80, CHR 0x86], [CHR 0xE2, CHR 0x80, CHR 0x87], [CHR 0xE2, CHR 0x80, CHR 0x88],
      [CHR 0xE2, CHR 0x80, CHR 0x89], [CHR 0xE2, CHR 0x80, CHR 0x8A], [CHR 0xE2, CHR 0x80, CHR 0xA8],
      [CHR 0xE2, CHR 0x80, CHR 0xA9], [CHR 0xE2, CHR 0x80, CHR 0xAF], [CHR 0xE2, CHR 0x81, CHR 0x9F],
      [CHR 0xE3, CHR 0x80, CHR 0x80], [CHR 0xEF, CHR 0xBB, CHR 0xBF]]"

text \<open>The entry of \<open>table\<close> that \<open>s\<close> starts with, if any.\<close>

definition leading :: "string list \<Rightarrow> string \<Rightarrow> string option" where
  "leading table s = find (\<lambda>e. e \<noteq> [] \<and> take (length e) s = e) table"

lemma leading_shorter: "leading table s = Some e \<Longrightarrow> length (drop (length e) s) < length s"
proof -
  assume "leading table s = Some e"
  then have "e \<noteq> [] \<and> take (length e) s = e"
    by (auto simp: leading_def find_Some_iff)
  then have "e \<noteq> []" and "length e \<le> length s"
    by (simp, metis length_take min.cobounded1)
  then show ?thesis by (cases s) auto
qed

text \<open>Removing every leading entry of \<open>table\<close> from \<open>s\<close>.\<close>

function stripLeading :: "string list \<Rightarrow> string \<Rightarrow> string" where
  "stripLeading table s =
     (case leading table s of
        None \<Rightarrow> s
      | Some e \<Rightarrow> stripLeading table (drop (length e) s))"
  by pat_completeness auto
termination
  by (relation "measure (\<lambda>(table, s). length s)") (auto dest: leading_shorter)

declare stripLeading.simps [simp del]

text \<open>\<^verbatim>\<open>s.trim()\<close>: white space is removed from the start and, read backwards, from the end.\<close>

definition trim :: "string \<Rightarrow> string" where
  "trim s = rev (stripLeading (map rev whiteSpace) (rev (stripLeading whiteSpace s)))"

text \<open>\<^verbatim>\<open>typeof value === 'string' && value.trim() ? value : null\<close>\<close>

fun getString :: "json option \<Rightarrow> string option" where
  "getString (Some (JStr s)) = (if trim s \<noteq> [] then Some s else None)"
| "getString _ = None"

text \<open>\<^verbatim>\<open>a || b\<close> on the results of \<open>getString\<close> (a non-empty string or null).\<close>

fun orElse :: "string option \<Rightarrow> string option \<Rightarrow> string option" where
  "orElse (Some s) b = Some s"
| "orElse None b = b"

text \<open>\<^verbatim>\<open>Boolean(v)\<close>\<close>

fun js_Boolean :: "json option \<Rightarrow> bool" where
  "js_Boolean None = False"
| "js_Boolean (Some JNull) = False"
| "js_Boolean (Some (JBool b)) = b"
| "js_Boolean (Some (JNum n)) = (n \<noteq> 0)"
| "js_Boolean (Some (JStr s)) = (s \<noteq> [])"
| "js_Boolean (Some (JArr xs)) = True"
| "js_Boolean (Some (JObj kvs)) = True"

text \<open>Decimal rendering of a number inside a template literal.\<close>

fun digits :: "nat \<Rightarrow> string" where
  "digits n =
     (if n < 10 then [''0123456789'' ! n]
      else digits (n div 10) @ [''0123456789'' ! (n mod 10)])"

declare digits.simps [simp del]

definition showInt :: "int \<Rightarrow> string" where
  "showInt i = (if i < 0 then CHR ''-'' # digits (nat (- i)) else digits (nat i))"

text \<open>\<^verbatim>\<open>xs.join(sep)\<close>\<close>

fun join :: "string \<Rightarrow> string list \<Rightarrow> string" where
  "join sep [] = []"
| "join sep [x] = x"
| "join sep (x # y # ys) = x @ sep @ join sep (y # ys)"

text \<open>
  \<^verbatim>\<open>String(v)\<close> on a JSON value. A number up to \<open>2\<^sup>5\<^sup>3\<close> in absolute value prints as its
  decimal digits; beyond that the parsed number is a rounded double, printed in exponent
  notation from \<open>10\<^sup>2\<^sup>1\<close> on: \<open>large n\<close> is what the runtime prints for the literal \<open>n\<close>.
\<close>

fun js_String :: "(int \<Rightarrow> string) \<Rightarrow> json \<Rightarrow> string" where
  "js_String large JNull = ''null''"
| "js_String large (JBool b) = (if b then ''true'' else ''false'')"
| "js_String large (JNum n) = (if \<bar>n\<bar> \<le> 9007199254740992 then showInt n else large n)"
| "js_String large (JStr s) = s"
| "js_String large (JArr xs) = join '','' (map (\<lambda>x. if x = JNull then [] else js_String large x) xs)"
| "js_String large (JObj kvs) = ''[object Object]''"

section \<open>Tool types (providers/tools/types.ts)\<close>

record ToolExecutionContext =
  cwd :: string
  abortController :: "nat option"

record ToolExecutionResult =
  content :: string
  isError :: "bool option"

text \<open>
  A tool's \<^verbatim>\<open>execute\<close> is an async function acting on the outside world \<open>'w\<close>: it returns the
  world it leaves behind and either a result (\<open>Inr\<close>) or the message of the \<^verbatim>\<open>Error\<close> it
  rejects with (\<open>Inl\<close>).
\<close>

type_synonym 'w tool_execute =
  "json \<Rightarrow> ToolExecutionContext \<Rightarrow> 'w \<Rightarrow> (string + ToolExecutionResult) \<times> 'w"

record 'w ToolDefinition =
  tool_name :: string
  execute :: "'w tool_execute"

record ToolCall =
  call_id :: string
  call_name :: string
  call_arguments :: string

record ToolExecutionOutput =
  out_id :: string
  out_name :: string
  out_content :: string
  out_isError :: bool

section \<open>Tool registry (getToolDefinitions)\<close>

definition DEFAULT_TOOL_NAMES :: "string list" where
  "DEFAULT_TOOL_NAMES = [''Read'', ''Write'', ''Edit'', ''Glob'', ''Grep'', ''Bash'', ''WebFetch'']"

text \<open>The catalog, in declaration order; \<open>impl\<close> gives each entry's \<^verbatim>\<open>execute\<close> function.\<close>

definition TOOL_DEFINITIONS :: "(string \<Rightarrow> 'w tool_execute) \<Rightarrow> 'w ToolDefinition list" where
  "TOOL_DEFINITIONS impl =
     map (\<lambda>n. \<lparr>tool_name = n, execute = impl n\<rparr>)
       [''Read'', ''Write'', ''Edit'', ''Glob'', ''Grep'', ''Bash'', ''WebFetch'']"

definition getToolDefinitions ::
  "(string \<Rightarrow> 'w tool_execute) \<Rightarrow> string list option \<Rightarrow> 'w ToolDefinition list" where
  "getToolDefinitions impl allowedTools =
     (let names = (case allowedTools of None \<Rightarrow> DEFAULT_TOOL_NAMES | Some a \<Rightarrow> a)
      in filter (\<lambda>tool. tool_name tool \<in> set names) (TOOL_DEFINITIONS impl))"

section \<open>Tool executor (executeToolCalls)\<close>

text \<open>\<^verbatim>\<open>new Map(defs.map((tool) => [tool.name, tool]))\<close> followed by \<^verbatim>\<open>registry.get(name)\<close>:
  a later entry with the same name replaces an earlier one.\<close>

definition registry_get :: "'w ToolDefinition list \<Rightarrow> string \<Rightarrow> 'w ToolDefinition option" where
  "registry_get defs n = find (\<lambda>tool. tool_name tool = n) (rev defs)"

definition dq :: string where
  "dq = [CHR 0x22]"

text \<open>
  The runtime environment of the executor: \<open>JSON_parse\<close> returns the parsed value or the
  message of the \<^verbatim>\<open>SyntaxError\<close> it throws; \<open>impl\<close> is the catalog's implementations.
\<close>

record 'w exec_env =
  JSON_parse :: "string \<Rightarrow> string + json"
  impl :: "string \<Rightarrow> 'w tool_execute"

text \<open>
  One iteration of the \<^verbatim>\<open>for (const call of calls)\<close> loop. Besides the pushed result and the
  world, it returns the invocations of \<^verbatim>\<open>tool.execute\<close> it made (tool name and parsed
  arguments): none or one.
\<close>

definition executeToolCall ::
  "'w exec_env \<Rightarrow> 'w ToolDefinition list \<Rightarrow> ToolExecutionContext \<Rightarrow> ToolCall \<Rightarrow> 'w
     \<Rightarrow> ToolExecutionOutput \<times> (string \<times> json) list \<times> 'w" where
  "executeToolCall env registry context call w =
     (case registry_get registry (call_name call) of
        None \<Rightarrow>
          (\<lparr>out_id = call_id call, out_name = call_name call,
            out_content = ''Tool '' @ dq @ call_name call @ dq @ '' is not available.'',
            out_isError = True\<rparr>, [], w)
      | Some tool \<Rightarrow>
          (case (if call_arguments call \<noteq> [] then JSON_parse env (call_arguments call)
                 else Inr (JObj [])) of
             Inl msg \<Rightarrow>
               (\<lparr>out_id = call_id call, out_name = call_name call,
                 out_content = ''Failed to parse tool arguments: '' @ msg,
                 out_isError = True\<rparr>, [], w)
           | Inr parsedArgs \<Rightarrow>
               (case execute tool parsedArgs context w of
                  (Inr result, w') \<Rightarrow>
                    (\<lparr>out_id = call_id call, out_name = call_name call,
                      out_content = content result,
                      out_isError = (case isError result of None \<Rightarrow> False | Some b \<Rightarrow> b)\<rparr>,
                     [(tool_name tool, parsedArgs)], w')
                | (Inl msg, w') \<Rightarrow>
                    (\<lparr>out_id = call_id call, out_name = call_name call,
                      out_content = ''Tool '' @ dq @ call_name call @ dq @ '' failed: '' @ msg,
                      out_isError = True\<rparr>,
                     [(tool_name tool, parsedArgs)], w'))))"

fun runToolCalls ::
  "'w exec_env \<Rightarrow> 'w ToolDefinition list \<Rightarrow> ToolExecutionContext \<Rightarrow> ToolCall list \<Rightarrow> 'w
     \<Rightarrow> ToolExecutionOutput list \<times> (string \<times> json) list \<times> 'w" where
  "runToolCalls env registry context [] w = ([], [], w)"
| "runToolCalls env registry context (call # calls) w =
     (case executeToolCall env registry context call w of
        (r, iv, w') \<Rightarrow>
          (case runToolCalls env registry context calls w' of
             (rs, invs, w'') \<Rightarrow> (r # rs, iv @ invs, w'')))"

definition executeToolCalls ::
  "'w exec_env \<Rightarrow> ToolCall list \<Rightarrow> ToolExecutionContext \<Rightarrow> string list option \<Rightarrow> 'w
     \<Rightarrow> ToolExecutionOutput list \<times> (string \<times> json) list \<times> 'w" where
  "executeToolCalls env calls context allowedTools w =
     runToolCalls env (getToolDefinitions (impl env) allowedTools) context calls w"

text \<open>The world in which the \<open>i\<close>-th call of the loop runs: the one the first \<open>i\<close> calls leave.\<close>

definition worldBefore ::
  "'w exec_env \<Rightarrow> 'w ToolDefinition list \<Rightarrow> ToolExecutionContext \<Rightarrow> ToolCall list \<Rightarrow> nat \<Rightarrow> 'w \<Rightarrow> 'w" where
  "worldBefore env registry context calls i w =
     snd (snd (runToolCalls env registry context (take i calls) w))"


section \<open>File system and path helpers used by the tools\<close>

text \<open>
  A node of the directory tree as \<^verbatim>\<open>readdir(..., {withFileTypes: true})\<close> shows it: a regular
  file, a directory with its entries, a directory that cannot be listed (\<^verbatim>\<open>readdir\<close>
  throws), or an entry that is neither a file nor a directory.
\<close>

datatype fs_node =
    FileNode
  | DirNode "(string \<times> fs_node) list"
  | UnreadableNode
  | OtherNode

text \<open>
  The world the file tools act on. \<open>files\<close> maps a resolved path to the content of the file
  there; \<open>fs_error p\<close> is the message of the error with which \<^verbatim>\<open>secureFs\<close> rejects an access
  to \<open>p\<close> (a path outside the allowed roots, a missing permission), if it does;
  \<open>node_at p\<close> is the tree found at the resolved path \<open>p\<close>.
\<close>

record world =
  files :: "string \<rightharpoonup> string"
  fs_error :: "string \<Rightarrow> string option"
  node_at :: "string \<Rightarrow> fs_node"

text \<open>
  Modelled from the spec: \<^verbatim>\<open>secureFs\<close> of the platform package, whose source is not part of
  the files at hand. Every operation validates its path first and otherwise behaves like the
  \<^verbatim>\<open>fs/promises\<close> function of the same name; \<open>Inl\<close> carries the message of the error thrown.
\<close>

definition readFile :: "world \<Rightarrow> string \<Rightarrow> string + string" where
  "readFile w p =
     (case fs_error w p of
        Some msg \<Rightarrow> Inl msg
      | None \<Rightarrow>
          (case files w p of
             None \<Rightarrow> Inl (''ENOENT: no such file or directory, open '' @ p)
           | Some text \<Rightarrow> Inr text))"

definition writeFile :: "world \<Rightarrow> string \<Rightarrow> string \<Rightarrow> (string + unit) \<times> world" where
  "writeFile w p text =
     (case fs_error w p of
        Some msg \<Rightarrow> (Inl msg, w)
      | None \<Rightarrow> (Inr (), w\<lparr>files := (files w)(p \<mapsto> text)\<rparr>))"


text \<open>
  Functions of the JavaScript runtime the tools call and that are taken as given:
  \<^verbatim>\<open>path.isAbsolute\<close>, \<^verbatim>\<open>path.resolve\<close>, \<^verbatim>\<open>RegExp.prototype.test\<close> (on the source text of the
  pattern), \<^verbatim>\<open>Number\<close> (\<open>None\<close> is \<^verbatim>\<open>NaN\<close>) and the printing of a number beyond the safe
  integers.
\<close>

record runtime =
  path_isAbsolute :: "string \<Rightarrow> bool"
  path_resolve :: "string \<Rightarrow> string \<Rightarrow> string"
  regexp_test :: "string \<Rightarrow> string \<Rightarrow> bool"
  js_Number :: "json \<Rightarrow> int option"
  number_toString :: "int \<Rightarrow> string"

definition resolveInputPath :: "runtime \<Rightarrow> string \<Rightarrow> string \<Rightarrow> string" where
  "resolveInputPath rt cwd' inputPath =
     (if path_isAbsolute rt inputPath then inputPath else path_resolve rt cwd' inputPath)"

definition coerceFilePath :: "(string \<times> json) list \<Rightarrow> string option" where
  "coerceFilePath input =
     orElse (getString (getProp input ''file_path''))
       (orElse (getString (getProp input ''filePath''))
          (orElse (getString (getProp input ''path''))
             (getString (getProp input ''filename''))))"

section \<open>String primitives of the Edit tool\<close>

text \<open>\<^verbatim>\<open>s.split(sep)\<close>: the pieces between the non-overlapping occurrences of \<open>sep\<close>, found
  from the left. \<open>acc\<close> holds the current piece, reversed. (The tool only calls it with a
  non-empty separator.)\<close>

function splitOn :: "string \<Rightarrow> string \<Rightarrow> string \<Rightarrow> string list" where
  "splitOn sep acc [] = [rev acc]"
| "splitOn sep acc (c # cs) =
     (if sep \<noteq> [] \<and> take (length sep) (c # cs) = sep
      then rev acc # splitOn sep [] (drop (length sep) (c # cs))
      else splitOn sep (c # acc) cs)"
  by pat_completeness auto
termination
  by (relation "measure (\<lambda>(sep, acc, s). length s)") auto

definition js_split :: "string \<Rightarrow> string \<Rightarrow> string list" where
  "js_split s sep = splitOn sep [] s"

text \<open>\<^verbatim>\<open>s.indexOf(pat)\<close>; \<open>None\<close> is \<open>-1\<close>.\<close>

fun indexOf :: "string \<Rightarrow> string \<Rightarrow> nat option" where
  "indexOf [] pat = (if pat = [] then Some 0 else None)"
| "indexOf (c # cs) pat =
     (if take (length pat) (c # cs) = pat then Some 0 else map_option Suc (indexOf cs pat))"

section \<open>The Edit tool (editTool)\<close>

text \<open>An object literal: a property whose value is \<^verbatim>\<open>undefined\<close> reads like a missing one.\<close>

definition objectLiteral :: "(string \<times> json option) list \<Rightarrow> json" where
  "objectLiteral kvs = JObj (concat (map (\<lambda>(k, v). case v of None \<Rightarrow> [] | Some x \<Rightarrow> [(k, x)]) kvs))"

text \<open>
  The body of \<^verbatim>\<open>for (const edit of edits)\<close> on the loop state \<open>(updated, totalReplacements)\<close>.
  \<open>Inl\<close> is the result the tool returns early with.
\<close>

definition applyEdit ::
  "runtime \<Rightarrow> string \<Rightarrow> json \<Rightarrow> string \<times> nat \<Rightarrow> ToolExecutionResult + (string \<times> nat)" where
  "applyEdit rt resolved edit st =
     (case asObject (Some edit) of
        None \<Rightarrow> Inl \<lparr>content = ''Edit entries must be objects.'', isError = Some True\<rparr>
      | Some editObj \<Rightarrow>
          (let oldString = getString (nullish (getProp editObj ''old_string'') (getProp editObj ''oldString''));
               newString = (case nullish (getProp editObj ''new_string'')
                                   (nullish (getProp editObj ''newString'') (Some (JStr []))) of
                              None \<Rightarrow> ''undefined'' | Some v \<Rightarrow> js_String (number_toString rt) v);
               replaceAll = js_Boolean (nullish (getProp editObj ''replace_all'') (getProp editObj ''replaceAll''))
           in (case oldString of
                 None \<Rightarrow> Inl \<lparr>content = ''Edit entries must include old_string.'', isError = Some True\<rparr>
               | Some old \<Rightarrow>
                   (if replaceAll then
                      (let parts = js_split (fst st) old
                       in if length parts = 1
                          then Inl \<lparr>content = ''Edit failed: '' @ dq @ old @ dq @ '' not found in '' @ resolved @ ''.'',
                                    isError = Some True\<rparr>
                          else Inr (join newString parts, snd st + (length parts - 1)))
                    else
                      (case indexOf (fst st) old of
                         None \<Rightarrow> Inl \<lparr>content = ''Edit failed: '' @ dq @ old @ dq @ '' not found in '' @ resolved @ ''.'',
                                       isError = Some True\<rparr>
                       | Some index \<Rightarrow>
                           Inr (take index (fst st) @ newString @ drop (index + length old) (fst st),
                                snd st + 1))))))"

fun applyEdits ::
  "runtime \<Rightarrow> string \<Rightarrow> json list \<Rightarrow> string \<times> nat \<Rightarrow> ToolExecutionResult + (string \<times> nat)" where
  "applyEdits rt resolved [] st = Inr st"
| "applyEdits rt resolved (edit # edits) st =
     (case applyEdit rt resolved edit st of
        Inl early \<Rightarrow> Inl early
      | Inr st' \<Rightarrow> applyEdits rt resolved edits st')"

definition editTool :: "runtime \<Rightarrow> world tool_execute" where
  "editTool rt input context w =
     (case asObject (Some input) of
        None \<Rightarrow> (Inr \<lparr>content = ''Edit tool input must be an object.'', isError = Some True\<rparr>, w)
      | Some params \<Rightarrow>
          (case coerceFilePath params of
             None \<Rightarrow> (Inr \<lparr>content = ''Edit tool requires file_path.'', isError = Some True\<rparr>, w)
           | Some filePath \<Rightarrow>
               (let resolved = resolveInputPath rt (cwd context) filePath;
                    edits = (case getProp params ''edits'' of
                               Some (JArr (e # es)) \<Rightarrow> e # es
                             | _ \<Rightarrow>
                               [objectLiteral
                                  [(''old_string'', nullish (getProp params ''old_string'') (getProp params ''oldString'')),
                                   (''new_string'', nullish (getProp params ''new_string'') (getProp params ''newString'')),
                                   (''replace_all'', nullish (getProp params ''replace_all'') (getProp params ''replaceAll''))]])
                in (case readFile w resolved of
                      Inl msg \<Rightarrow>
                        (Inr \<lparr>content = ''Edit failed for '' @ resolved @ '': '' @ msg, isError = Some True\<rparr>, w)
                    | Inr original \<Rightarrow>
                        (case applyEdits rt resolved edits (original, 0) of
                           Inl early \<Rightarrow> (Inr early, w)
                         | Inr (updated, totalReplacements) \<Rightarrow>
                             (if updated = original
                              then (Inr \<lparr>content = ''Edit made no changes to '' @ resolved @ ''.'', isError = None\<rparr>, w)
                              else
                                (case writeFile w resolved updated of
                                   (Inl msg, w') \<Rightarrow>
                                     (Inr \<lparr>content = ''Edit failed for '' @ resolved @ '': '' @ msg,
                                           isError = Some True\<rparr>, w')
                                 | (Inr u, w') \<Rightarrow>
                                     (Inr \<lparr>content = ''Updated '' @ resolved @ '' ('' @
                                                       showInt (int totalReplacements) @ '' replacements).'',
                                           isError = None\<rparr>, w'))))))))"

section \<open>The Glob tool (globToRegExp, walkDirectory, globTool)\<close>




















section \<open>Provider messages\<close>

text \<open>The messages a provider's \<open>executeQuery\<close> yields, as far as the consumers read them.\<close>

datatype content_block =
    TextBlock string
  | ToolUseBlock (block_name: "string option") (block_input: json) (block_tool_use_id: string)
  | ToolResultBlock string string

datatype message_body =
    AssistantBody "content_block list option"
  | ResultBody (result_subtype: string) (result_text: "string option")
  | OtherBody

record ProviderMessage =
  session_id :: "string option"
  body :: message_body

definition assistantMessage :: "content_block list \<Rightarrow> ProviderMessage" where
  "assistantMessage blocks = \<lparr>session_id = None, body = AssistantBody (Some blocks)\<rparr>"

definition successResult :: "string \<Rightarrow> ProviderMessage" where
  "successResult text = \<lparr>session_id = None, body = ResultBody ''success'' (Some text)\<rparr>"


section \<open>OpenAI-compatible provider: stream accumulation (openai-provider.ts)\<close>





















section \<open>OpenAI-compatible provider: the tool loop (executeQuery)\<close>





























section \<open>Agent service: data (agent-service)\<close>

record image =
  image_data :: string
  mimeType :: string
  filename :: string

record Message =
  msg_id :: string
  msg_role :: string
  msg_content :: string
  msg_images :: "image list option"
  msg_timestamp :: string
  msg_isError :: "bool option"

record QueuedPrompt =
  qp_id :: string
  qp_message :: string
  qp_imagePaths :: "string list option"
  qp_model :: "string option"
  addedAt :: string

record Session =
  messages :: "Message list"
  isRunning :: bool
  session_abortController :: "nat option"
  workingDirectory :: string
  session_model :: "string option"
  session_sdkSessionId :: "string option"
  promptQueue :: "QueuedPrompt list"

text \<open>An entry of the metadata index as read back from its file: a property the stored object
  lacks is \<open>None\<close> (the entries that \<open>createSession\<close> writes have an id, a name, a working
  directory and both time stamps).\<close>

record SessionMetadata =
  md_id :: "string option"
  md_name :: "string option"
  projectPath :: "string option"
  md_workingDirectory :: "string option"
  createdAt :: "string option"
  updatedAt :: "string option"
  archived :: "bool option"
  tags :: "string list option"
  md_model :: "string option"
  md_sdkSessionId :: "string option"

text \<open>A thrown JavaScript error.\<close>

record js_error =
  err_name :: string
  err_message :: string

definition Error :: "string \<Rightarrow> js_error" where
  "Error msg = \<lparr>err_name = ''Error'', err_message = msg\<rparr>"

text \<open>The payloads of the \<^verbatim>\<open>agent:stream\<close> events, by their \<^verbatim>\<open>type\<close>.\<close>

datatype agent_event =
    Started
  | MessageEvent Message
  | StreamEvent string string
  | ToolUseEvent string json
  | CompleteEvent "string option" string "(string \<times> json) list"
  | ErrorEvent string Message
  | QueueUpdated "QueuedPrompt list"
  | QueueError string string

text \<open>What a file of the data directory holds.\<close>

datatype file_content =
    TranscriptFile "Message list"
  | QueueFile "QueuedPrompt list"
  | MetadataFile "(string \<times> SessionMetadata) list"

text \<open>
  The state of an \<open>AgentService\<close> and of what it acts on. Session objects live in a store
  (\<open>objects\<close>) and the \<open>sessions\<close> map holds references to them, since a running
  \<open>sendMessage\<close> keeps its session object whatever happens to the map. \<open>disk\<close> maps file paths
  to contents, \<open>emitted_events\<close> are the events emitted with their session id, in order,
  \<open>immediates\<close> are the session ids of the \<^verbatim>\<open>setImmediate\<close> callbacks not yet run, \<open>aborted\<close>
  the abort controllers whose \<^verbatim>\<open>abort()\<close> was called, and \<open>ticks\<close> counts the readings of
  the clock and of the random source.
\<close>

record service =
  sessions :: "string \<rightharpoonup> nat"
  objects :: "nat \<Rightarrow> Session"
  next_ref :: nat
  disk :: "string \<rightharpoonup> file_content"
  emitted_events :: "(string \<times> agent_event) list"
  immediates :: "string list"
  aborted :: "nat set"
  ticks :: nat

text \<open>The arguments of \<open>sendMessage\<close>.\<close>

record send_args =
  arg_sessionId :: string
  arg_message :: string
  arg_workingDirectory :: "string option"
  arg_imagePaths :: "string list option"
  arg_model :: "string option"

datatype stream_end = StreamDone | StreamRaised js_error

text \<open>
  What the environment contributes to the service. \<open>write_error p\<close> is the message of the
  error with which a write to the path \<open>p\<close> fails, if it does. \<open>provider_run\<close> stands for
  everything \<open>sendMessage\<close> does between saving the user message and the end of the provider's
  stream (loading settings and context files, building the options, selecting the provider,
  running it): the provider messages received and how the stream ended, an error raised by
  any of these steps included. \<open>editIntentError dir text\<close> is the message of the error that
  \<open>validateAndSetScope\<close> throws for the edit intent extracted from \<open>text\<close>, if it throws.
\<close>

record service_env =
  stateDir :: string
  metadataFile :: string
  now_at :: "nat \<Rightarrow> string"
  random_at :: "nat \<Rightarrow> string"
  write_error :: "string \<Rightarrow> string option"
  readImageAsBase64 :: "string \<Rightarrow> string + image"
  isAbortError :: "js_error \<Rightarrow> bool"
  editIntentError :: "string \<Rightarrow> string \<Rightarrow> string option"
  provider_run :: "send_args \<Rightarrow> Session \<Rightarrow> ProviderMessage list \<times> stream_end"

record send_result =
  success :: bool
  res_aborted :: "bool option"
  res_message :: "Message option"

text \<open>
  The locals of a running \<open>sendMessage\<close>. The local \<open>currentAssistantMessage\<close> refers to the
  very object that was pushed onto \<open>session.messages\<close>: \<open>currentAssistantMessage\<close> is its
  present value and \<open>assistantAt\<close> the index at which it was pushed, through which an
  assignment to its \<open>content\<close> reaches the array.
\<close>

record turn =
  turn_args :: send_args
  turn_session :: nat
  currentAssistantMessage :: "Message option"
  assistantAt :: nat
  responseText :: string
  toolUses :: "(string \<times> json) list"

section \<open>Agent service: persistence\<close>

definition sessionFile :: "service_env \<Rightarrow> string \<Rightarrow> string" where
  "sessionFile env sessionId = stateDir env @ ''/'' @ sessionId @ ''.json''"

definition queueFile :: "service_env \<Rightarrow> string \<Rightarrow> string" where
  "queueFile env sessionId = stateDir env @ ''/'' @ sessionId @ ''-queue.json''"

text \<open>
  Modelled from the spec: the \<^verbatim>\<open>secure-fs\<close> module the service imports, whose source is not
  part of the files at hand. \<^verbatim>\<open>writeFile\<close> and \<^verbatim>\<open>unlink\<close> act on the disk of the state;
  \<open>Inl\<close> carries the error thrown (a rejected path, a failing write, a missing file).
\<close>

definition fs_writeFile :: "service_env \<Rightarrow> string \<Rightarrow> file_content \<Rightarrow> service \<Rightarrow> (js_error + unit) \<times> service" where
  "fs_writeFile env p c s =
     (case write_error env p of
        Some msg \<Rightarrow> (Inl (Error msg), s)
      | None \<Rightarrow> (Inr (), s\<lparr>disk := (disk s)(p \<mapsto> c)\<rparr>))"

definition fs_unlink :: "service_env \<Rightarrow> string \<Rightarrow> service \<Rightarrow> (js_error + unit) \<times> service" where
  "fs_unlink env p s =
     (case write_error env p of
        Some msg \<Rightarrow> (Inl (Error msg), s)
      | None \<Rightarrow>
          (case disk s p of
             None \<Rightarrow> (Inl (Error (''ENOENT: no such file or directory, unlink '' @ p)), s)
           | Some c \<Rightarrow> (Inr (), s\<lparr>disk := (disk s)(p := None)\<rparr>)))"

text \<open>\<^verbatim>\<open>new Date().toISOString()\<close> and \<open>generateId\<close> read the clock (and the random source).\<close>

definition now :: "service_env \<Rightarrow> service \<Rightarrow> string \<times> service" where
  "now env s = (now_at env (ticks s), s\<lparr>ticks := Suc (ticks s)\<rparr>)"

definition generateId :: "service_env \<Rightarrow> service \<Rightarrow> string \<times> service" where
  "generateId env s =
     (''msg_'' @ now_at env (ticks s) @ ''_'' @ random_at env (ticks s), s\<lparr>ticks := Suc (ticks s)\<rparr>)"

text \<open>\<open>loadMetadata\<close>: a missing file, or one that is not a metadata index, reads as \<^verbatim>\<open>{}\<close>.\<close>

definition loadMetadata :: "service_env \<Rightarrow> service \<Rightarrow> (string \<times> SessionMetadata) list" where
  "loadMetadata env s =
     (case disk s (metadataFile env) of
        Some (MetadataFile m) \<Rightarrow> m
      | _ \<Rightarrow> [])"

definition saveMetadata ::
  "service_env \<Rightarrow> (string \<times> SessionMetadata) list \<Rightarrow> service \<Rightarrow> (js_error + unit) \<times> service" where
  "saveMetadata env m s = fs_writeFile env (metadataFile env) (MetadataFile m) s"

text \<open>
  The index is a plain object parsed from JSON, so \<^verbatim>\<open>metadata[sessionId]\<close> also finds the
  members every object inherits from \<^verbatim>\<open>Object.prototype\<close>: for these names the read yields a
  function or object (truthy) although the index has no such entry. An own property comes
  first. (A write through \<^verbatim>\<open>metadata[sessionId].updatedAt = ...\<close> on an inherited member lands
  on that shared object; the model does not follow it further.)
\<close>

definition objectPrototypeNames :: "string list" where
  "objectPrototypeNames =
     [''constructor'', ''__proto__'', ''hasOwnProperty'', ''isPrototypeOf'',
      ''propertyIsEnumerable'', ''toLocaleString'', ''toString'', ''valueOf'',
      ''__defineGetter__'', ''__defineSetter__'', ''__lookupGetter__'', ''__lookupSetter__'']"

datatype 'v member = Own 'v | Inherited | Absent

definition record_get :: "(string \<times> 'v) list \<Rightarrow> string \<Rightarrow> 'v member" where
  "record_get entries k =
     (case map_of entries k of
        Some v \<Rightarrow> Own v
      | None \<Rightarrow> if k \<in> set objectPrototypeNames then Inherited else Absent)"

text \<open>\<^verbatim>\<open>metadata[sessionId] = v\<close> and \<^verbatim>\<open>delete metadata[sessionId]\<close> on the own entries of the
  index. Assigning to \<^verbatim>\<open>__proto__\<close> when it is not an own property replaces the prototype and
  adds no entry.\<close>

fun record_set :: "(string \<times> 'v) list \<Rightarrow> string \<Rightarrow> 'v \<Rightarrow> (string \<times> 'v) list" where
  "record_set [] k v = (if k = ''__proto__'' then [] else [(k, v)])"
| "record_set ((k', v') # entries) k v =
     (if k' = k then (k, v) # entries else (k', v') # record_set entries k v)"

definition record_delete :: "(string \<times> 'v) list \<Rightarrow> string \<Rightarrow> (string \<times> 'v) list" where
  "record_delete entries k = filter (\<lambda>e. fst e \<noteq> k) entries"

text \<open>The object \<^verbatim>\<open>{}\<close> read as an entry.\<close>

definition emptyMetadata :: SessionMetadata where
  "emptyMetadata =
     \<lparr>md_id = None, md_name = None, projectPath = None, md_workingDirectory = None,
      createdAt = None, updatedAt = None, archived = None, tags = None, md_model = None,
      md_sdkSessionId = None\<rparr>"

definition updateSessionTimestamp :: "service_env \<Rightarrow> string \<Rightarrow> service \<Rightarrow> (js_error + unit) \<times> service" where
  "updateSessionTimestamp env sessionId s =
     (let m = loadMetadata env s
      in case record_get m sessionId of
           Absent \<Rightarrow> (Inr (), s)
         | Own entry \<Rightarrow>
             (case now env s of
                (t, s1) \<Rightarrow> saveMetadata env (record_set m sessionId (entry\<lparr>updatedAt := Some t\<rparr>)) s1)
         | Inherited \<Rightarrow>
             (case now env s of
                (t, s1) \<Rightarrow> saveMetadata env m s1))"

text \<open>\<open>saveSession\<close>: both steps are inside one \<^verbatim>\<open>try\<close>; a failure is logged and dropped.\<close>

definition saveSession :: "service_env \<Rightarrow> string \<Rightarrow> Message list \<Rightarrow> service \<Rightarrow> service" where
  "saveSession env sessionId msgs s =
     (case fs_writeFile env (sessionFile env sessionId) (TranscriptFile msgs) s of
        (Inl err, s1) \<Rightarrow> s1
      | (Inr u, s1) \<Rightarrow> snd (updateSessionTimestamp env sessionId s1))"

text \<open>\<open>updateSession\<close>: \<open>updates\<close> is the spread \<^verbatim>\<open>...updates\<close> as a function on the entry. The
  spread of an inherited member contributes no property.\<close>

definition updateSession ::
  "service_env \<Rightarrow> string \<Rightarrow> (SessionMetadata \<Rightarrow> SessionMetadata) \<Rightarrow> service
     \<Rightarrow> (js_error + SessionMetadata option) \<times> service" where
  "updateSession env sessionId updates s =
     (let m = loadMetadata env s
      in case record_get m sessionId of
           Absent \<Rightarrow> (Inr None, s)
         | found \<Rightarrow>
             (case now env s of
                (t, s1) \<Rightarrow>
                  (let entry' = (updates (case found of Own entry \<Rightarrow> entry | _ \<Rightarrow> emptyMetadata))
                                  \<lparr>updatedAt := Some t\<rparr>
                   in case saveMetadata env (record_set m sessionId entry') s1 of
                        (Inl err, s2) \<Rightarrow> (Inl err, s2)
                      | (Inr u, s2) \<Rightarrow> (Inr (Some entry'), s2))))"


definition emitAgentEvent :: "string \<Rightarrow> agent_event \<Rightarrow> service \<Rightarrow> service" where
  "emitAgentEvent sessionId ev s = s\<lparr>emitted_events := emitted_events s @ [(sessionId, ev)]\<rparr>"

text \<open>Reading and updating the session object behind a reference.\<close>

definition modify :: "nat \<Rightarrow> (Session \<Rightarrow> Session) \<Rightarrow> service \<Rightarrow> service" where
  "modify r f s = s\<lparr>objects := (objects s)(r := f (objects s r))\<rparr>"

definition sessions_get :: "service \<Rightarrow> string \<Rightarrow> Session option" where
  "sessions_get s sessionId = map_option (objects s) (sessions s sessionId)"

section \<open>Agent service: sendMessage\<close>

text \<open>The loop over \<open>imagePaths\<close>: an image that cannot be read is logged and skipped.\<close>

definition loadImages :: "service_env \<Rightarrow> string list \<Rightarrow> image list" where
  "loadImages env paths =
     concat (map (\<lambda>p. case readImageAsBase64 env p of Inl err \<Rightarrow> [] | Inr img \<Rightarrow> [img]) paths)"

definition truthy :: "string option \<Rightarrow> bool" where
  "truthy v = (case v of None \<Rightarrow> False | Some x \<Rightarrow> x \<noteq> [])"

text \<open>
  \<open>sendMessage\<close> up to and including the first \<open>saveSession\<close>, that is, everything before the
  \<^verbatim>\<open>try\<close> block. \<open>Inl\<close> is the error the call rejects with; \<open>Inr\<close> the locals of the turn
  that is now running.
\<close>

definition sendMessage_begin :: "service_env \<Rightarrow> send_args \<Rightarrow> service \<Rightarrow> (js_error + turn) \<times> service" where
  "sendMessage_begin env args s =
     (let sessionId = arg_sessionId args
      in case sessions s sessionId of
           None \<Rightarrow> (Inl (Error (''Session '' @ sessionId @ '' not found'')), s)
         | Some r \<Rightarrow>
             if isRunning (objects s r)
             then (Inl (Error ''Agent is already processing a message''), s)
             else
               (case (if truthy (arg_model args)
                      then updateSession env sessionId (\<lambda>e. e\<lparr>md_model := arg_model args\<rparr>)
                             (modify r (\<lambda>x. x\<lparr>session_model := arg_model args\<rparr>) s)
                      else (Inr None, s)) of
                  (Inl err, s1) \<Rightarrow> (Inl err, s1)
                | (Inr u, s1) \<Rightarrow>
                    (let images = loadImages env (case arg_imagePaths args of None \<Rightarrow> [] | Some ps \<Rightarrow> ps)
                     in case generateId env s1 of
                          (ident, s2) \<Rightarrow>
                            (case now env s2 of
                               (t, s3) \<Rightarrow>
                                 (let userMessage =
                                        \<lparr>msg_id = ident, msg_role = ''user'', msg_content = arg_message args,
                                         msg_images = (if images \<noteq> [] then Some images else None),
                                         msg_timestamp = t, msg_isError = None\<rparr>;
                                      s4 = modify r (\<lambda>x. x\<lparr>messages := messages x @ [userMessage],
                                                          isRunning := True,
                                                          session_abortController := Some (next_ref s3)\<rparr>)
                                             (s3\<lparr>next_ref := Suc (next_ref s3)\<rparr>);
                                      s5 = emitAgentEvent sessionId Started s4;
                                      s6 = emitAgentEvent sessionId (MessageEvent userMessage) s5;
                                      s7 = saveSession env sessionId (messages (objects s6 r)) s6
                                  in (Inr \<lparr>turn_args = args, turn_session = r,
                                           currentAssistantMessage = None, assistantAt = 0,
                                           responseText = [], toolUses = []\<rparr>, s7))))))"

text \<open>
  The first pass over the content blocks of an assistant message. On a text block the
  response text grows; the assistant message of the turn is created and pushed onto the
  history, or, when it exists, its content is assigned. The result is the locals and the
  state after that.
\<close>

definition upsertAssistantMessage :: "service_env \<Rightarrow> turn \<Rightarrow> string \<Rightarrow> service \<Rightarrow> turn \<times> service" where
  "upsertAssistantMessage env tn responseText' s =
     (case currentAssistantMessage tn of
        None \<Rightarrow>
          (case generateId env s of
             (ident, s1) \<Rightarrow>
               (case now env s1 of
                  (t, s2) \<Rightarrow>
                    (let m = \<lparr>msg_id = ident, msg_role = ''assistant'',
                              msg_content = responseText', msg_images = None,
                              msg_timestamp = t, msg_isError = None\<rparr>
                     in (tn\<lparr>responseText := responseText', currentAssistantMessage := Some m,
                            assistantAt := length (messages (objects s2 (turn_session tn)))\<rparr>,
                         modify (turn_session tn) (\<lambda>x. x\<lparr>messages := messages x @ [m]\<rparr>) s2))))
      | Some cur \<Rightarrow>
          (tn\<lparr>responseText := responseText',
              currentAssistantMessage := Some (cur\<lparr>msg_content := responseText'\<rparr>)\<rparr>,
           modify (turn_session tn)
             (\<lambda>x. x\<lparr>messages := (messages x)[assistantAt tn := cur\<lparr>msg_content := responseText'\<rparr>]\<rparr>) s))"

definition textBlockStep :: "service_env \<Rightarrow> content_block \<Rightarrow> turn \<Rightarrow> service \<Rightarrow> (js_error + turn) \<times> service" where
  "textBlockStep env block tn s =
     (case block of
        TextBlock text \<Rightarrow>
          (let sessionId = arg_sessionId (turn_args tn);
               created = upsertAssistantMessage env tn (responseText tn @ text) s;
               effectiveWorkDir =
                 (if truthy (arg_workingDirectory (turn_args tn))
                  then the (arg_workingDirectory (turn_args tn))
                  else workingDirectory (objects s (turn_session tn)))
           in case editIntentError env effectiveWorkDir (responseText (fst created)) of
                Some msg \<Rightarrow> (Inl (Error msg), snd created)
              | None \<Rightarrow>
                  (Inr (fst created),
                   emitAgentEvent sessionId
                     (StreamEvent (case currentAssistantMessage (fst created) of
                                     Some m \<Rightarrow> msg_id m | None \<Rightarrow> [])
                        (responseText (fst created)))
                     (snd created)))
      | _ \<Rightarrow> (Inr tn, s))"

fun textPass :: "service_env \<Rightarrow> content_block list \<Rightarrow> turn \<Rightarrow> service \<Rightarrow> (js_error + turn) \<times> service" where
  "textPass env [] tn s = (Inr tn, s)"
| "textPass env (block # blocks) tn s =
     (case textBlockStep env block tn s of
        (Inl err, s1) \<Rightarrow> (Inl err, s1)
      | (Inr tn1, s1) \<Rightarrow> textPass env blocks tn1 s1)"

text \<open>The second pass, for one block (\<open>enforceEditGuardrails\<close> returns without doing anything).\<close>

definition toolBlockStep :: "content_block \<Rightarrow> turn \<times> service \<Rightarrow> turn \<times> service" where
  "toolBlockStep block ts =
     (case block of
        ToolUseBlock name input ident \<Rightarrow>
          (let toolUse = (if truthy name then the name else ''unknown'', input)
           in (fst ts\<lparr>toolUses := toolUses (fst ts) @ [toolUse]\<rparr>,
               emitAgentEvent (arg_sessionId (turn_args (fst ts))) (ToolUseEvent (fst toolUse) (snd toolUse))
                 (snd ts)))
      | _ \<Rightarrow> ts)"

text \<open>The body of \<^verbatim>\<open>for await (const msg of stream)\<close>. \<open>Inl\<close> is an error thrown inside the
  \<^verbatim>\<open>try\<close> block.\<close>

definition consumeMessage :: "service_env \<Rightarrow> turn \<Rightarrow> ProviderMessage \<Rightarrow> service \<Rightarrow> (js_error + turn) \<times> service" where
  "consumeMessage env tn msg s =
     (let sessionId = arg_sessionId (turn_args tn);
          r = turn_session tn
      in case (if truthy (session_id msg) \<and> \<not> truthy (session_sdkSessionId (objects s r))
               then updateSession env sessionId (\<lambda>e. e\<lparr>md_sdkSessionId := session_id msg\<rparr>)
                      (modify r (\<lambda>x. x\<lparr>session_sdkSessionId := session_id msg\<rparr>) s)
               else (Inr None, s)) of
           (Inl err, s1) \<Rightarrow> (Inl err, s1)
         | (Inr u, s1) \<Rightarrow>
             (case body msg of
                AssistantBody blocks \<Rightarrow>
                  (case blocks of
                     None \<Rightarrow> (Inr tn, s1)
                   | Some bs \<Rightarrow>
                       (case textPass env bs tn s1 of
                          (Inl err, s2) \<Rightarrow> (Inl err, s2)
                        | (Inr tn2, s2) \<Rightarrow>
                            (case foldl (\<lambda>ts block. toolBlockStep block ts) (tn2, s2) bs of
                               (tn3, s3) \<Rightarrow> (Inr tn3, s3))))
              | ResultBody subtype result \<Rightarrow>
                  (let updated =
                         (if subtype = ''success'' \<and> truthy result
                          then (case currentAssistantMessage tn of
                                  None \<Rightarrow> (tn, s1)
                                | Some cur \<Rightarrow>
                                    (tn\<lparr>currentAssistantMessage := Some (cur\<lparr>msg_content := the result\<rparr>),
                                        responseText := the result\<rparr>,
                                     modify r (\<lambda>x. x\<lparr>messages :=
                                         (messages x)[assistantAt tn := cur\<lparr>msg_content := the result\<rparr>]\<rparr>) s1))
                          else (tn, s1))
                   in (Inr (fst updated),
                       emitAgentEvent sessionId
                         (CompleteEvent (map_option msg_id (currentAssistantMessage (fst updated)))
                            (responseText (fst updated)) (toolUses (fst updated)))
                         (snd updated)))
              | OtherBody \<Rightarrow> (Inr tn, s1)))"

fun consumeAll :: "service_env \<Rightarrow> turn \<Rightarrow> ProviderMessage list \<Rightarrow> service \<Rightarrow> (js_error + turn) \<times> service" where
  "consumeAll env tn [] s = (Inr tn, s)"
| "consumeAll env tn (msg # msgs) s =
     (case consumeMessage env tn msg s of
        (Inl err, s1) \<Rightarrow> (Inl err, s1)
      | (Inr tn1, s1) \<Rightarrow> consumeAll env tn1 msgs s1)"

text \<open>The end of the \<^verbatim>\<open>try\<close> block, after the stream is exhausted.\<close>

definition sendMessage_complete :: "service_env \<Rightarrow> turn \<Rightarrow> service \<Rightarrow> (js_error + send_result) \<times> service" where
  "sendMessage_complete env tn s =
     (let sessionId = arg_sessionId (turn_args tn);
          r = turn_session tn;
          s1 = saveSession env sessionId (messages (objects s r)) s;
          s2 = modify r (\<lambda>x. x\<lparr>isRunning := False, session_abortController := None\<rparr>) s1;
          s3 = s2\<lparr>immediates := immediates s2 @ [sessionId]\<rparr>
      in (Inr \<lparr>success = True, res_aborted = None, res_message = currentAssistantMessage tn\<rparr>, s3))"

text \<open>The \<^verbatim>\<open>catch (error)\<close> block.\<close>

definition sendMessage_catch :: "service_env \<Rightarrow> turn \<Rightarrow> js_error \<Rightarrow> service \<Rightarrow> (js_error + send_result) \<times> service" where
  "sendMessage_catch env tn error s =
     (let sessionId = arg_sessionId (turn_args tn);
          r = turn_session tn
      in if isAbortError env error
         then (Inr \<lparr>success = False, res_aborted = Some True, res_message = None\<rparr>,
               modify r (\<lambda>x. x\<lparr>isRunning := False, session_abortController := None\<rparr>) s)
         else
           (let s1 = modify r (\<lambda>x. x\<lparr>isRunning := False, session_abortController := None\<rparr>) s
            in case generateId env s1 of
                 (ident, s2) \<Rightarrow>
                   (case now env s2 of
                      (t, s3) \<Rightarrow>
                        (let errorMessage =
                               \<lparr>msg_id = ident, msg_role = ''assistant'',
                                msg_content = ''Error: '' @ err_message error, msg_images = None,
                                msg_timestamp = t, msg_isError = Some True\<rparr>;
                             s4 = modify r (\<lambda>x. x\<lparr>messages := messages x @ [errorMessage]\<rparr>) s3;
                             s5 = saveSession env sessionId (messages (objects s4 r)) s4;
                             s6 = emitAgentEvent sessionId (ErrorEvent (err_message error) errorMessage) s5
                         in (Inl error, s6)))))"

text \<open>A running turn from the first provider message to the return of \<open>sendMessage\<close>.\<close>

definition finishTurn ::
  "service_env \<Rightarrow> turn \<Rightarrow> ProviderMessage list \<times> stream_end \<Rightarrow> service \<Rightarrow> (js_error + send_result) \<times> service" where
  "finishTurn env tn run s =
     (case consumeAll env tn (fst run) s of
        (Inl err, s1) \<Rightarrow> sendMessage_catch env tn err s1
      | (Inr tn1, s1) \<Rightarrow>
          (case snd run of
             StreamDone \<Rightarrow> sendMessage_complete env tn1 s1
           | StreamRaised err \<Rightarrow> sendMessage_catch env tn1 err s1))"

text \<open>\<open>sendMessage\<close> when nothing else runs between its steps.\<close>

definition sendMessage :: "service_env \<Rightarrow> send_args \<Rightarrow> service \<Rightarrow> (js_error + send_result) \<times> service" where
  "sendMessage env args s =
     (case sendMessage_begin env args s of
        (Inl err, s1) \<Rightarrow> (Inl err, s1)
      | (Inr tn, s1) \<Rightarrow> finishTurn env tn (provider_run env args (objects s1 (turn_session tn))) s1)"

section \<open>Agent service: stop, delete, queue\<close>

record op_result =
  ok :: bool
  op_error :: "string option"

definition stopExecution :: "string \<Rightarrow> service \<Rightarrow> op_result \<times> service" where
  "stopExecution sessionId s =
     (case sessions s sessionId of
        None \<Rightarrow> (\<lparr>ok = False, op_error = Some ''Session not found''\<rparr>, s)
      | Some r \<Rightarrow>
          (case session_abortController (objects s r) of
             Some c \<Rightarrow>
               (\<lparr>ok = True, op_error = None\<rparr>,
                modify r (\<lambda>x. x\<lparr>isRunning := False, session_abortController := None\<rparr>)
                  (s\<lparr>aborted := insert c (aborted s)\<rparr>))
           | None \<Rightarrow> (\<lparr>ok = True, op_error = None\<rparr>, s)))"

definition deleteSession :: "service_env \<Rightarrow> string \<Rightarrow> service \<Rightarrow> (js_error + bool) \<times> service" where
  "deleteSession env sessionId s =
     (let m = loadMetadata env s
      in case record_get m sessionId of
           Absent \<Rightarrow> (Inr False, s)
         | found \<Rightarrow>
             (case saveMetadata env (record_delete m sessionId) s of
                (Inl err, s1) \<Rightarrow> (Inl err, s1)
              | (Inr u, s1) \<Rightarrow>
                  (let s2 = snd (fs_unlink env (sessionFile env sessionId) s1)
                   in (Inr True, s2\<lparr>sessions := (sessions s2)(sessionId := None)\<rparr>))))"





definition isQueueUpdated :: "string \<times> agent_event \<Rightarrow> bool" where
  "isQueueUpdated e = (case snd e of QueueUpdated q \<Rightarrow> True | _ \<Rightarrow> False)"


text \<open>\<open>memory_frame s s'\<close>: going from \<open>s\<close> to \<open>s'\<close> changed at most the disk and the clock.\<close>

definition memory_frame :: "service \<Rightarrow> service \<Rightarrow> bool" where
  "memory_frame s s' \<longleftrightarrow>
     sessions s' = sessions s \<and> objects s' = objects s \<and> emitted_events s' = emitted_events s \<and>
     immediates s' = immediates s \<and> next_ref s' = next_ref s \<and> aborted s' = aborted s"

text \<open>
  \<open>persist_frame env sid s s'\<close>: on top of that, the only files that may differ are the
  transcript of the conversation \<open>sid\<close> and the metadata index.
\<close>

definition persist_frame :: "service_env \<Rightarrow> string \<Rightarrow> service \<Rightarrow> service \<Rightarrow> bool" where
  "persist_frame env sid s s' \<longleftrightarrow>
     memory_frame s s' \<and>
     (\<forall>p. p \<noteq> sessionFile env sid \<longrightarrow> p \<noteq> metadataFile env \<longrightarrow> disk s' p = disk s p)"

text \<open>
  \<open>turn_frame env sid r k s s'\<close>: what the steps of a turn of the conversation \<open>sid\<close>, whose
  session object is \<open>r\<close>, leave alone. The session map, every prompt queue, every session's
  model and the pending callbacks are as they were; the events emitted in between include no \<^verbatim>\<open>queue_updated\<close>;
  the only files that may differ are the transcript of \<open>sid\<close> and the metadata index; and
  the history of \<open>r\<close> has not become shorter and its first \<open>k\<close> messages are as they were.
\<close>

definition turn_frame :: "service_env \<Rightarrow> string \<Rightarrow> nat \<Rightarrow> nat \<Rightarrow> service \<Rightarrow> service \<Rightarrow> bool" where
  "turn_frame env sid r k s s' \<longleftrightarrow>
     sessions s' = sessions s \<and>
     (\<forall>x. promptQueue (objects s' x) = promptQueue (objects s x)) \<and>
     (\<forall>x. session_model (objects s' x) = session_model (objects s x)) \<and>
     immediates s' = immediates s \<and>
     (\<exists>more. emitted_events s' = emitted_events s @ more \<and> filter isQueueUpdated more = []) \<and>
     (\<forall>p. p \<noteq> sessionFile env sid \<longrightarrow> p \<noteq> metadataFile env \<longrightarrow> disk s' p = disk s p) \<and>
     take k (messages (objects s' r)) = take k (messages (objects s r)) \<and>
     length (messages (objects s r)) \<le> length (messages (objects s' r))"

text \<open>
  \<open>turn_inv sid r k tn s\<close>: the locals \<open>tn\<close> belong to a turn of the conversation \<open>sid\<close> with
  session object \<open>r\<close> whose history has at least \<open>k\<close> messages, and the assistant message of
  the turn, if there is one, lies behind the first \<open>k\<close>.
\<close>

definition turn_inv :: "string \<Rightarrow> nat \<Rightarrow> nat \<Rightarrow> turn \<Rightarrow> service \<Rightarrow> bool" where
  "turn_inv sid r k tn s \<longleftrightarrow>
     turn_session tn = r \<and> arg_sessionId (turn_args tn) = sid \<and>
     k \<le> length (messages (objects s r)) \<and>
     (currentAssistantMessage tn = None \<or> k \<le> assistantAt tn)"

text \<open>
  \<open>turn_step env sid r k s out\<close>: a step of the turn that started in \<open>s\<close> and ended with
  \<open>out\<close> kept the frame, and the locals it returns, if it did not throw, keep the invariant.
\<close>

definition turn_step ::
  "service_env \<Rightarrow> string \<Rightarrow> nat \<Rightarrow> nat \<Rightarrow> service \<Rightarrow> (js_error + turn) \<times> service \<Rightarrow> bool" where
  "turn_step env sid r k s out \<longleftrightarrow>
     turn_frame env sid r k s (snd out) \<and>
     (case fst out of Inl err \<Rightarrow> True | Inr tn1 \<Rightarrow> turn_inv sid r k tn1 (snd out))"


definition edit_world :: world where
  "edit_world =
     \<lparr>files = [''/repo/a.txt'' \<mapsto> ''foo bar foo''],
      fs_error = (\<lambda>p. None),
      node_at = (\<lambda>p. UnreadableNode)\<rparr>"

definition posix_runtime :: runtime where
  "posix_runtime =
     \<lparr>path_isAbsolute = (\<lambda>p. p \<noteq> [] \<and> hd p = CHR ''/''),
      path_resolve = (\<lambda>d p. d @ ''/'' @ p),
      regexp_test = (\<lambda>re s. True),
      js_Number = (\<lambda>v. case v of JNum n \<Rightarrow> Some n | _ \<Rightarrow> None),
      number_toString = (\<lambda>n. ''1e+21'')\<rparr>"

definition edit_input :: "bool \<Rightarrow> json" where
  "edit_input all =
     JObj [(''file_path'', JStr ''/repo/a.txt''), (''old_string'', JStr ''foo''),
           (''new_string'', JStr ''baz''), (''replace_all'', JBool all)]"
definition demo_env :: "unit exec_env" where
  "demo_env = \<lparr>JSON_parse = (\<lambda>s. if s = ''{}'' then Inr (JObj []) else Inl ''Unexpected token''),
               impl = (\<lambda>n args ctx w.
                  if n = ''Bash'' then (Inl ''spawn failed'', w)
                  else (Inr \<lparr>content = ''ok'', isError = None\<rparr>, w))\<rparr>"

definition demo_calls :: "ToolCall list" where
  "demo_calls =
     [\<lparr>call_id = ''c1'', call_name = ''Delete'', call_arguments = ''{}''\<rparr>,
      \<lparr>call_id = ''c2'', call_name = ''Read'', call_arguments = ''{bad''\<rparr>,
      \<lparr>call_id = ''c3'', call_name = ''Bash'', call_arguments = []\<rparr>,
      \<lparr>call_id = ''c4'', call_name = ''Write'', call_arguments = ''{}''\<rparr>]"

definition demo_context :: ToolExecutionContext where
  "demo_context = \<lparr>cwd = ''/repo'', abortController = None\<rparr>"
















definition demo_service_env :: service_env where
  "demo_service_env =
     \<lparr>stateDir = ''/data/agent-sessions'', metadataFile = ''/data/sessions-metadata.json'',
      now_at = (\<lambda>n. digits n), random_at = (\<lambda>n. ''r''),
      write_error = (\<lambda>p. None), readImageAsBase64 = (\<lambda>p. Inl ''unreadable''),
      isAbortError = (\<lambda>e. err_name e = ''AbortError''),
      editIntentError = (\<lambda>dir text. None),
      provider_run = (\<lambda>args session.
        ([assistantMessage [TextBlock ''Done.''], successResult ''Done.''], StreamDone))\<rparr>"

definition demo_metadata :: SessionMetadata where
  "demo_metadata =
     \<lparr>md_id = Some ''s1'', md_name = Some ''Session 1'', projectPath = None,
      md_workingDirectory = Some ''/repo'', createdAt = Some ''0'', updatedAt = Some ''0'',
      archived = None, tags = None, md_model = None,
      md_sdkSessionId = None\<rparr>"

definition demo_queued :: QueuedPrompt where
  "demo_queued =
     \<lparr>qp_id = ''q1'', qp_message = ''then run the tests'', qp_imagePaths = None, qp_model = None,
      addedAt = ''0''\<rparr>"

definition running_session :: Session where
  "running_session =
     \<lparr>messages = [\<lparr>msg_id = ''m1'', msg_role = ''user'', msg_content = ''list files'',
                   msg_images = None, msg_timestamp = ''0'', msg_isError = None\<rparr>],
      isRunning = True, session_abortController = Some 0, workingDirectory = ''/repo'',
      session_model = None, session_sdkSessionId = None, promptQueue = []\<rparr>"

text \<open>A service with one conversation, \<open>s1\<close>, whose turn is running.\<close>

definition active_service :: service where
  "active_service =
     \<lparr>sessions = [''s1'' \<mapsto> 0], objects = (\<lambda>r. running_session), next_ref = 1,
      disk = [''/data/sessions-metadata.json'' \<mapsto> MetadataFile [(''s1'', demo_metadata)],
              ''/data/agent-sessions/s1.json'' \<mapsto> TranscriptFile (messages running_session)],
      emitted_events = [], immediates = [], aborted = {}, ticks = 1\<rparr>"

definition demo_args :: send_args where
  "demo_args =
     \<lparr>arg_sessionId = ''s1'', arg_message = ''list files'', arg_workingDirectory = None,
      arg_imagePaths = None, arg_model = None\<rparr>"

definition demo_turn :: turn where
  "demo_turn =
     \<lparr>turn_args = demo_args, turn_session = 0, currentAssistantMessage = None, assistantAt = 0,
      responseText = [],
      toolUses = []\<rparr>"

definition abort_error :: js_error where
  "abort_error = \<lparr>err_name = ''AbortError'', err_message = ''The operation was aborted''\<rparr>"

text \<open>An idle service whose conversation \<open>s1\<close> has a transcript, a metadata entry and a queue
  file holding one prompt.\<close>

definition stored_service :: service where
  "stored_service =
     \<lparr>sessions = [''s1'' \<mapsto> 0],
      objects = (\<lambda>r. running_session\<lparr>isRunning := False, session_abortController := None,
                                      promptQueue := [demo_queued]\<rparr>),
      next_ref = 1,
      disk = [''/data/sessions-metadata.json'' \<mapsto> MetadataFile [(''s1'', demo_metadata)],
              ''/data/agent-sessions/s1.json'' \<mapsto> TranscriptFile (messages running_session),
              ''/data/agent-sessions/s1-queue.json'' \<mapsto> QueueFile [demo_queued]],
      emitted_events = [], immediates = [], aborted = {}, ticks = 1\<rparr>"








section \<open>Verified properties\<close>


subsection \<open>The tool executor\<close>

lemma find_SomeD: "find P xs = Some x \<Longrightarrow> P x \<and> x \<in> set xs"
  by (induction xs) (auto split: if_splits)

lemma registry_get_Some:
  "registry_get defs n = Some t \<Longrightarrow> tool_name t = n \<and> t \<in> set defs"
  using find_SomeD [of "\<lambda>tool. tool_name tool = n" "rev defs" t]
  by (simp add: registry_get_def)

lemma registry_get_None:
  "registry_get defs n = None \<longleftrightarrow> n \<notin> tool_name ` set defs"
  by (auto simp: registry_get_def find_None_iff)

lemma getToolDefinitions_names:
  "t \<in> set (getToolDefinitions im allowedTools) \<Longrightarrow>
     tool_name t \<in> set (case allowedTools of None \<Rightarrow> DEFAULT_TOOL_NAMES | Some a \<Rightarrow> a) \<and>
     tool_name t \<in> set DEFAULT_TOOL_NAMES"
proof -
  assume "t \<in> set (getToolDefinitions im allowedTools)"
  then have a: "tool_name t \<in> set (case allowedTools of None \<Rightarrow> DEFAULT_TOOL_NAMES | Some a \<Rightarrow> a)"
    and b: "t \<in> set (TOOL_DEFINITIONS im)"
    by (simp_all add: getToolDefinitions_def Let_def)
  from b have "tool_name t \<in> set DEFAULT_TOOL_NAMES"
    by (auto simp: TOOL_DEFINITIONS_def DEFAULT_TOOL_NAMES_def)
  with a show ?thesis by simp
qed

lemma executeToolCall_ids:
  "out_id (fst (executeToolCall env reg ctx c w)) = call_id c \<and>
   out_name (fst (executeToolCall env reg ctx c w)) = call_name c"
  by (simp add: executeToolCall_def split: option.splits sum.splits prod.splits)

lemma runToolCalls_length:
  "length (fst (runToolCalls env reg ctx calls w)) = length calls"
proof (induction calls arbitrary: w)
  case Nil
  show ?case by simp
next
  case (Cons c calls)
  obtain r iv w' where s: "executeToolCall env reg ctx c w = (r, iv, w')"
    by (cases "executeToolCall env reg ctx c w") auto
  obtain rs ivs w'' where t: "runToolCalls env reg ctx calls w' = (rs, ivs, w'')"
    by (cases "runToolCalls env reg ctx calls w'") auto
  from Cons.IH [of w'] t show ?case using s by simp
qed

lemma runToolCalls_ids:
  "map out_id (fst (runToolCalls env reg ctx calls w)) = map call_id calls \<and>
   map out_name (fst (runToolCalls env reg ctx calls w)) = map call_name calls"
proof (induction calls arbitrary: w)
  case Nil
  show ?case by simp
next
  case (Cons c calls)
  obtain r iv w' where s: "executeToolCall env reg ctx c w = (r, iv, w')"
    by (cases "executeToolCall env reg ctx c w") auto
  obtain rs ivs w'' where t: "runToolCalls env reg ctx calls w' = (rs, ivs, w'')"
    by (cases "runToolCalls env reg ctx calls w'") auto
  from executeToolCall_ids [of env reg ctx c w] s
  have "out_id r = call_id c" "out_name r = call_name c" by simp_all
  moreover from Cons.IH [of w'] t
  have "map out_id rs = map call_id calls" "map out_name rs = map call_name calls" by simp_all
  ultimately show ?case using s t by simp
qed

lemma runToolCalls_nth:
  "i < length calls \<Longrightarrow>
   fst (runToolCalls env reg ctx calls w) ! i =
     fst (executeToolCall env reg ctx (calls ! i) (worldBefore env reg ctx calls i w))"
proof (induction calls arbitrary: i w)
  case Nil
  then show ?case by simp
next
  case (Cons c calls)
  obtain r iv w' where s: "executeToolCall env reg ctx c w = (r, iv, w')"
    by (cases "executeToolCall env reg ctx c w") auto
  obtain rs ivs w'' where t: "runToolCalls env reg ctx calls w' = (rs, ivs, w'')"
    by (cases "runToolCalls env reg ctx calls w'") auto
  show ?case
  proof (cases i)
    case 0
    then show ?thesis using s t by (simp add: worldBefore_def)
  next
    case (Suc j)
    with Cons.prems have j: "j < length calls" by simp
    from Cons.IH [OF j, of w'] show ?thesis
      using s t Suc by (simp add: worldBefore_def split: prod.splits)
  qed
qed

lemma executeToolCall_errors:
  "(registry_get reg (call_name c) = None \<longrightarrow> out_isError (fst (executeToolCall env reg ctx c w))) \<and>
   (call_arguments c \<noteq> [] \<and> (\<exists>msg. JSON_parse env (call_arguments c) = Inl msg)
      \<longrightarrow> out_isError (fst (executeToolCall env reg ctx c w))) \<and>
   (\<forall>tool args msg.
      registry_get reg (call_name c) = Some tool \<and>
      (if call_arguments c \<noteq> [] then JSON_parse env (call_arguments c) else Inr (JObj [])) = Inr args \<and>
      fst (execute tool args ctx w) = Inl msg
      \<longrightarrow> out_isError (fst (executeToolCall env reg ctx c w)))"
  by (auto simp: executeToolCall_def split: option.splits sum.splits prod.splits)

text \<open>
  Claim C3. \<open>executeToolCalls\<close> always returns: one result per call, in input order
  (same ids and names). A call whose name has no registered tool, whose non-empty arguments
  string \<^verbatim>\<open>JSON.parse\<close> rejects, or whose tool implementation throws in the world the call
  runs in, yields a result with \<open>isError = true\<close>. Every throwing operation of the source
  (\<^verbatim>\<open>JSON.parse\<close>, \<^verbatim>\<open>tool.execute\<close>) is a sum in the model and each \<open>Inl\<close> is turned into
  a result, so the function has no error outcome.
\<close>

theorem executeToolCalls_never_throws:
  "length (fst (executeToolCalls env calls context allowedTools w)) = length calls \<and>
   map out_id (fst (executeToolCalls env calls context allowedTools w)) = map call_id calls \<and>
   map out_name (fst (executeToolCalls env calls context allowedTools w)) = map call_name calls \<and>
   (\<forall>i<length calls.
      (registry_get (getToolDefinitions (impl env) allowedTools) (call_name (calls ! i)) = None
         \<longrightarrow> out_isError (fst (executeToolCalls env calls context allowedTools w) ! i)) \<and>
      (call_arguments (calls ! i) \<noteq> [] \<and>
       (\<exists>msg. JSON_parse env (call_arguments (calls ! i)) = Inl msg)
         \<longrightarrow> out_isError (fst (executeToolCalls env calls context allowedTools w) ! i)) \<and>
      (\<forall>tool args msg.
         registry_get (getToolDefinitions (impl env) allowedTools) (call_name (calls ! i)) = Some tool \<and>
         (if call_arguments (calls ! i) \<noteq> [] then JSON_parse env (call_arguments (calls ! i))
          else Inr (JObj [])) = Inr args \<and>
         fst (execute tool args context
               (worldBefore env (getToolDefinitions (impl env) allowedTools) context calls i w)) = Inl msg
         \<longrightarrow> out_isError (fst (executeToolCalls env calls context allowedTools w) ! i)))"
  unfolding executeToolCalls_def
  using runToolCalls_length runToolCalls_ids runToolCalls_nth executeToolCall_errors
  by (metis (no_types, lifting))

lemma executeToolCall_invocations:
  "(n, a) \<in> set (fst (snd (executeToolCall env reg ctx c w))) \<Longrightarrow> \<exists>t \<in> set reg. tool_name t = n"
  by (auto simp: executeToolCall_def split: option.splits sum.splits prod.splits
           dest: registry_get_Some)

lemma runToolCalls_invocations:
  "(n, a) \<in> set (fst (snd (runToolCalls env reg ctx calls w))) \<Longrightarrow> \<exists>t \<in> set reg. tool_name t = n"
proof (induction calls arbitrary: w)
  case Nil
  then show ?case by simp
next
  case (Cons c calls)
  obtain r iv w' where s: "executeToolCall env reg ctx c w = (r, iv, w')"
    by (cases "executeToolCall env reg ctx c w") auto
  obtain rs ivs w'' where t: "runToolCalls env reg ctx calls w' = (rs, ivs, w'')"
    by (cases "runToolCalls env reg ctx calls w'") auto
  from Cons.prems s t have "(n, a) \<in> set iv \<or> (n, a) \<in> set ivs" by simp
  then show ?case
  proof
    assume "(n, a) \<in> set iv"
    with s executeToolCall_invocations [of n a env reg ctx c w] show ?thesis by simp
  next
    assume "(n, a) \<in> set ivs"
    with t Cons.IH [of w'] show ?thesis by simp
  qed
qed

lemma runToolCalls_append:
  "runToolCalls env reg ctx (xs @ ys) w =
     (case runToolCalls env reg ctx xs w of
        (rs, ivs, w') \<Rightarrow>
          (case runToolCalls env reg ctx ys w' of
             (rs', ivs', w'') \<Rightarrow> (rs @ rs', ivs @ ivs', w'')))"
  by (induction xs arbitrary: w) (auto split: prod.splits)

lemma worldBefore_Suc:
  "i < length calls \<Longrightarrow>
   worldBefore env reg ctx calls (Suc i) w =
     snd (snd (executeToolCall env reg ctx (calls ! i) (worldBefore env reg ctx calls i w)))"
  by (simp add: worldBefore_def take_Suc_conv_app_nth runToolCalls_append split: prod.splits)

lemma executeToolCall_unavailable:
  "registry_get reg (call_name c) = None \<Longrightarrow>
   executeToolCall env reg ctx c w =
     (\<lparr>out_id = call_id c, out_name = call_name c,
       out_content = ''Tool '' @ dq @ call_name c @ dq @ '' is not available.'',
       out_isError = True\<rparr>, [], w)"
  by (simp add: executeToolCall_def)

text \<open>
  Claim C7. Every invocation of a tool implementation made by \<open>executeToolCalls\<close> is of
  a tool named in the allowed-tools list (the default catalog when the list is absent) and
  in the catalog. A call whose name is not in that list gets exactly the error-flagged
  "not available" result, leaves the world as it was, and its name never occurs among the
  invocations.
\<close>

theorem executeToolCalls_confined:
  "(\<forall>(n, a) \<in> set (fst (snd (executeToolCalls env calls context allowedTools w))).
      n \<in> set (case allowedTools of None \<Rightarrow> DEFAULT_TOOL_NAMES | Some A \<Rightarrow> A) \<and>
      n \<in> set DEFAULT_TOOL_NAMES) \<and>
   (\<forall>i<length calls.
      call_name (calls ! i) \<notin> set (case allowedTools of None \<Rightarrow> DEFAULT_TOOL_NAMES | Some A \<Rightarrow> A)
      \<longrightarrow>
        fst (executeToolCalls env calls context allowedTools w) ! i =
          \<lparr>out_id = call_id (calls ! i), out_name = call_name (calls ! i),
           out_content = ''Tool '' @ dq @ call_name (calls ! i) @ dq @ '' is not available.'',
           out_isError = True\<rparr> \<and>
        worldBefore env (getToolDefinitions (impl env) allowedTools) context calls (Suc i) w =
          worldBefore env (getToolDefinitions (impl env) allowedTools) context calls i w \<and>
        call_name (calls ! i) \<notin>
          fst ` set (fst (snd (executeToolCalls env calls context allowedTools w))))"
proof -
  let ?reg = "getToolDefinitions (impl env) allowedTools"
  let ?names = "set (case allowedTools of None \<Rightarrow> DEFAULT_TOOL_NAMES | Some A \<Rightarrow> A)"
  have inv: "n \<in> ?names \<and> n \<in> set DEFAULT_TOOL_NAMES"
    if "(n, a) \<in> set (fst (snd (runToolCalls env ?reg context calls w)))" for n a
    using runToolCalls_invocations [OF that] getToolDefinitions_names by blast
  have una: "registry_get ?reg m = None" if "m \<notin> ?names" for m
    using that getToolDefinitions_names [of _ "impl env" allowedTools]
    by (auto simp: registry_get_None)
  have one: "fst (runToolCalls env ?reg context calls w) ! i =
          \<lparr>out_id = call_id (calls ! i), out_name = call_name (calls ! i),
           out_content = ''Tool '' @ dq @ call_name (calls ! i) @ dq @ '' is not available.'',
           out_isError = True\<rparr> \<and>
        worldBefore env ?reg context calls (Suc i) w = worldBefore env ?reg context calls i w \<and>
        call_name (calls ! i) \<notin> fst ` set (fst (snd (runToolCalls env ?reg context calls w)))"
    if i: "i < length calls" and n: "call_name (calls ! i) \<notin> ?names" for i
  proof -
    note u = executeToolCall_unavailable [OF una [OF n]]
    have "call_name (calls ! i) \<notin> fst ` set (fst (snd (runToolCalls env ?reg context calls w)))"
      using inv n by force
    then show ?thesis
      using runToolCalls_nth [OF i, of env ?reg "context" w] worldBefore_Suc [OF i, of env ?reg "context" w]
      by (simp add: u)
  qed
  have p1: "\<forall>(n, a) \<in> set (fst (snd (runToolCalls env ?reg context calls w))).
      n \<in> ?names \<and> n \<in> set DEFAULT_TOOL_NAMES"
    using inv by (auto simp only: split_paired_all case_prod_conv)
  have p2: "\<forall>i<length calls. call_name (calls ! i) \<notin> ?names \<longrightarrow>
        fst (runToolCalls env ?reg context calls w) ! i =
          \<lparr>out_id = call_id (calls ! i), out_name = call_name (calls ! i),
           out_content = ''Tool '' @ dq @ call_name (calls ! i) @ dq @ '' is not available.'',
           out_isError = True\<rparr> \<and>
        worldBefore env ?reg context calls (Suc i) w = worldBefore env ?reg context calls i w \<and>
        call_name (calls ! i) \<notin> fst ` set (fst (snd (runToolCalls env ?reg context calls w)))"
    using one by blast
  show ?thesis
    unfolding executeToolCalls_def using p1 p2 by (rule conjI)
qed

lemma demo_registry:
  "registry_get (getToolDefinitions (impl demo_env) (Some [''Read'', ''Bash''])) ''Delete'' = None"
  "registry_get (getToolDefinitions (impl demo_env) (Some [''Read'', ''Bash''])) ''Write'' = None"
  "registry_get (getToolDefinitions (impl demo_env) (Some [''Read'', ''Bash''])) ''Read'' =
     Some \<lparr>tool_name = ''Read'', execute = impl demo_env ''Read''\<rparr>"
  "registry_get (getToolDefinitions (impl demo_env) (Some [''Read'', ''Bash''])) ''Bash'' =
     Some \<lparr>tool_name = ''Bash'', execute = impl demo_env ''Bash''\<rparr>"
  by (simp_all add: registry_get_def getToolDefinitions_def TOOL_DEFINITIONS_def)

theorem executeToolCalls_never_throws_witness:
  "length (fst (executeToolCalls demo_env demo_calls demo_context (Some [''Read'', ''Bash'']) ())) = 4 \<and>
   out_isError (fst (executeToolCalls demo_env demo_calls demo_context (Some [''Read'', ''Bash'']) ()) ! 0) \<and>
   out_isError (fst (executeToolCalls demo_env demo_calls demo_context (Some [''Read'', ''Bash'']) ()) ! 1) \<and>
   out_isError (fst (executeToolCalls demo_env demo_calls demo_context (Some [''Read'', ''Bash'']) ()) ! 2)"
proof -
  note t = executeToolCalls_never_throws
    [of demo_env demo_calls demo_context "Some [''Read'', ''Bash'']" "()"]
  have len: "length demo_calls = 4" by (simp add: demo_calls_def)
  have c0: "call_name (demo_calls ! 0) = ''Delete''"
    and c1: "call_arguments (demo_calls ! 1) = ''{bad''"
    and c2: "call_name (demo_calls ! 2) = ''Bash''" "call_arguments (demo_calls ! 2) = []"
    by (simp_all add: demo_calls_def)
  have p1: "JSON_parse demo_env ''{bad'' = Inl ''Unexpected token''"
    by (simp add: demo_env_def)
  have x2: "fst (execute \<lparr>tool_name = ''Bash'', execute = impl demo_env ''Bash''\<rparr> (JObj []) demo_context u)
              = Inl ''spawn failed''" for u
    by (simp add: demo_env_def)
  from t len have "length (fst (executeToolCalls demo_env demo_calls demo_context (Some [''Read'', ''Bash'']) ())) = 4"
    by simp
  moreover from t len c0 demo_registry(1)
  have "out_isError (fst (executeToolCalls demo_env demo_calls demo_context (Some [''Read'', ''Bash'']) ()) ! 0)"
    by simp
  moreover from t len c1 p1
  have "out_isError (fst (executeToolCalls demo_env demo_calls demo_context (Some [''Read'', ''Bash'']) ()) ! 1)"
    by simp
  moreover from t len c2 demo_registry(4) x2
  have "out_isError (fst (executeToolCalls demo_env demo_calls demo_context (Some [''Read'', ''Bash'']) ()) ! 2)"
    by simp
  ultimately show ?thesis by simp
qed

theorem executeToolCalls_confined_witness:
  "fst (executeToolCalls demo_env demo_calls demo_context (Some [''Read'', ''Bash'']) ()) ! 3 =
     \<lparr>out_id = ''c4'', out_name = ''Write'',
      out_content = ''Tool '' @ dq @ ''Write'' @ dq @ '' is not available.'',
      out_isError = True\<rparr> \<and>
   ''Write'' \<notin> fst ` set (fst (snd (executeToolCalls demo_env demo_calls demo_context (Some [''Read'', ''Bash'']) ())))"
proof -
  have len: "3 < length demo_calls" by (simp add: demo_calls_def)
  have c3: "demo_calls ! 3 = \<lparr>call_id = ''c4'', call_name = ''Write'', call_arguments = ''{}''\<rparr>"
    by (simp add: demo_calls_def)
  have n: "call_name (demo_calls ! 3) \<notin> set (case Some [''Read'', ''Bash''] of None \<Rightarrow> DEFAULT_TOOL_NAMES | Some A \<Rightarrow> A)"
    by (simp add: c3)
  from executeToolCalls_confined
    [of demo_env demo_calls demo_context "Some [''Read'', ''Bash'']" "()",
      THEN conjunct2, rule_format, OF len n]
  show ?thesis by (simp add: c3)
qed

subsection \<open>The Edit tool\<close>

lemma split_foo: "js_split ''foo bar foo'' ''foo'' = [] # ['' bar '', []]"
  by (simp add: js_split_def)

lemma index_foo: "indexOf ''foo bar foo'' ''foo'' = Some 0"
  by simp

lemma trim_foo: "trim ''foo'' \<noteq> []"
  by code_simp

lemma digits_small: "digits (Suc 0) = ''1''" "digits (Suc (Suc 0)) = ''2''"
  by (simp_all add: digits.simps)

text \<open>
  Claim C9. On a file whose content is \<open>foo bar foo\<close>, the Edit tool with
  \<open>old_string = foo\<close> and \<open>new_string = baz\<close> writes \<open>baz bar baz\<close> and reports 2
  replacements when \<open>replace_all\<close> is true, and writes \<open>baz bar foo\<close> (first occurrence
  only) and reports 1 replacement when it is false.
\<close>

theorem editTool_foo_bar_foo:
  assumes "trim p \<noteq> []"
    and "files w (resolveInputPath rt (cwd ctx) p) = Some ''foo bar foo''"
    and "fs_error w (resolveInputPath rt (cwd ctx) p) = None"
  shows "editTool rt (JObj [(''file_path'', JStr p), (''old_string'', JStr ''foo''),
             (''new_string'', JStr ''baz''), (''replace_all'', JBool True)]) ctx w =
           (Inr \<lparr>content = ''Updated '' @ resolveInputPath rt (cwd ctx) p @ '' (2 replacements).'',
                 isError = None\<rparr>,
            w\<lparr>files := (files w)(resolveInputPath rt (cwd ctx) p \<mapsto> ''baz bar baz'')\<rparr>)
       \<and> editTool rt (JObj [(''file_path'', JStr p), (''old_string'', JStr ''foo''),
             (''new_string'', JStr ''baz''), (''replace_all'', JBool False)]) ctx w =
           (Inr \<lparr>content = ''Updated '' @ resolveInputPath rt (cwd ctx) p @ '' (1 replacements).'',
                 isError = None\<rparr>,
            w\<lparr>files := (files w)(resolveInputPath rt (cwd ctx) p \<mapsto> ''baz bar foo'')\<rparr>)"
  using assms
  by (simp add: editTool_def coerceFilePath_def getProp_def objectLiteral_def readFile_def
      writeFile_def applyEdit_def split_foo trim_foo showInt_def digits_small Let_def)

theorem editTool_foo_bar_foo_witness:
  "editTool posix_runtime (edit_input True) demo_context edit_world =
     (Inr \<lparr>content = ''Updated /repo/a.txt (2 replacements).'', isError = None\<rparr>,
      edit_world\<lparr>files := (files edit_world)(''/repo/a.txt'' \<mapsto> ''baz bar baz'')\<rparr>)
   \<and> editTool posix_runtime (edit_input False) demo_context edit_world =
     (Inr \<lparr>content = ''Updated /repo/a.txt (1 replacements).'', isError = None\<rparr>,
      edit_world\<lparr>files := (files edit_world)(''/repo/a.txt'' \<mapsto> ''baz bar foo'')\<rparr>)"
proof -
  have r: "resolveInputPath posix_runtime (cwd demo_context) ''/repo/a.txt'' = ''/repo/a.txt''"
    by (simp add: resolveInputPath_def posix_runtime_def)
  have t: "trim ''/repo/a.txt'' \<noteq> []"
    by code_simp
  have f: "files edit_world (resolveInputPath posix_runtime (cwd demo_context) ''/repo/a.txt'') = Some ''foo bar foo''"
    "fs_error edit_world (resolveInputPath posix_runtime (cwd demo_context) ''/repo/a.txt'') = None"
    unfolding r by (simp_all add: edit_world_def)
  from editTool_foo_bar_foo [OF t f] show ?thesis
    unfolding r edit_input_def by simp
qed


subsection \<open>The Glob tool\<close>















subsection \<open>Accumulation of streamed tool calls\<close>

















subsection \<open>The tool loop\<close>

















subsection \<open>Sending while a turn is running\<close>

text \<open>
  Claim C1. \<open>sendMessage\<close> on a conversation whose running flag is set fails with the error
  \<open>Agent is already processing a message\<close> and leaves the whole state as it was: no
  message is appended, the session model is not updated, nothing is written to disk and no
  event is emitted.
\<close>

theorem sendMessage_while_running:
  "sessions s (arg_sessionId args) = Some r \<Longrightarrow> isRunning (objects s r) \<Longrightarrow>
   sendMessage env args s = (Inl (Error ''Agent is already processing a message''), s)"
  by (simp add: sendMessage_def sendMessage_begin_def)

theorem sendMessage_while_running_witness:
  "sendMessage demo_service_env (demo_args\<lparr>arg_model := Some ''gpt-4o''\<rparr>) active_service =
     (Inl (Error ''Agent is already processing a message''), active_service)"
proof -
  have a: "sessions active_service (arg_sessionId (demo_args\<lparr>arg_model := Some ''gpt-4o''\<rparr>)) = Some 0"
    by (simp add: active_service_def demo_args_def)
  have b: "isRunning (objects active_service 0)"
    by (simp add: active_service_def running_session_def)
  from sendMessage_while_running [OF a b] show ?thesis .
qed

subsection \<open>Stopping a running turn\<close>

lemma stop_active:
  assumes "sessions s sid = Some r" and "session_abortController (objects s r) = Some c"
  shows "stopExecution sid s =
     (\<lparr>ok = True, op_error = None\<rparr>,
      modify r (\<lambda>x. x\<lparr>isRunning := False, session_abortController := None\<rparr>)
        (s\<lparr>aborted := insert c (aborted s)\<rparr>))"
  using assms by (simp add: stopExecution_def)

lemma catch_abort:
  "isAbortError env err \<Longrightarrow>
   finishTurn env tn ([], StreamRaised err) s =
     (Inr \<lparr>success = False, res_aborted = Some True, res_message = None\<rparr>,
      modify (turn_session tn) (\<lambda>x. x\<lparr>isRunning := False, session_abortController := None\<rparr>) s)"
  by (simp add: finishTurn_def sendMessage_catch_def)

text \<open>
  Claim C5, as the code has it. When \<open>stopExecution\<close> is called on a conversation whose turn
  is running, it reports success, aborts the turn's controller and clears the running flag;
  when the interrupted \<open>sendMessage\<close> then sees the stream fail with an abort error, it
  returns \<open>{success: false, aborted: true}\<close>, leaves the conversation idle, appends no
  message (so no error-flagged one), writes nothing to disk and emits no event.
\<close>

theorem stop_during_active_turn:
  assumes "sessions s sid = Some r" and "isRunning (objects s r)"
    and "session_abortController (objects s r) = Some c"
    and "turn_session tn = r" and "isAbortError env err"
  shows "fst (stopExecution sid s) = \<lparr>ok = True, op_error = None\<rparr> \<and>
         \<not> isRunning (objects (snd (stopExecution sid s)) r) \<and>
         c \<in> aborted (snd (stopExecution sid s)) \<and>
         fst (finishTurn env tn ([], StreamRaised err) (snd (stopExecution sid s))) =
           Inr \<lparr>success = False, res_aborted = Some True, res_message = None\<rparr> \<and>
         \<not> isRunning (objects (snd (finishTurn env tn ([], StreamRaised err) (snd (stopExecution sid s)))) r) \<and>
         session_abortController
           (objects (snd (finishTurn env tn ([], StreamRaised err) (snd (stopExecution sid s)))) r) = None \<and>
         messages (objects (snd (finishTurn env tn ([], StreamRaised err) (snd (stopExecution sid s)))) r) =
           messages (objects s r) \<and>
         disk (snd (finishTurn env tn ([], StreamRaised err) (snd (stopExecution sid s)))) = disk s \<and>
         emitted_events (snd (finishTurn env tn ([], StreamRaised err) (snd (stopExecution sid s)))) =
           emitted_events s"
  using assms by (simp add: stop_active catch_abort modify_def)

lemma demo_abort:
  "sessions active_service ''s1'' = Some 0"
  "isRunning (objects active_service 0)"
  "session_abortController (objects active_service 0) = Some 0"
  "turn_session demo_turn = 0"
  "isAbortError demo_service_env abort_error"
  by (simp_all add: active_service_def running_session_def demo_turn_def demo_service_env_def
      abort_error_def)

theorem stop_during_active_turn_witness:
  "fst (finishTurn demo_service_env demo_turn ([], StreamRaised abort_error)
          (snd (stopExecution ''s1'' active_service))) =
     Inr \<lparr>success = False, res_aborted = Some True, res_message = None\<rparr> \<and>
   messages (objects (snd (finishTurn demo_service_env demo_turn ([], StreamRaised abort_error)
          (snd (stopExecution ''s1'' active_service)))) 0) = messages running_session"
  using stop_during_active_turn [OF demo_abort]
  by (simp add: active_service_def)

text \<open>
  Claim C5 as stated says the interrupted \<open>sendMessage\<close> returns \<open>{success: true, aborted:
  true}\<close>. For the conversation \<open>s1\<close> stopped while its turn runs, the value returned has
  \<open>success = false\<close>.
\<close>

theorem stop_returns_success_false:
  "fst (finishTurn demo_service_env demo_turn ([], StreamRaised abort_error)
          (snd (stopExecution ''s1'' active_service))) =
     Inr \<lparr>success = False, res_aborted = Some True, res_message = None\<rparr> \<and>
   fst (finishTurn demo_service_env demo_turn ([], StreamRaised abort_error)
          (snd (stopExecution ''s1'' active_service))) \<noteq>
     Inr \<lparr>success = True, res_aborted = Some True, res_message = None\<rparr>"
  by (simp add: catch_abort demo_abort)


subsection \<open>Deleting a conversation\<close>

text \<open>
  Claim C8, evaluated. The conversation \<open>s1\<close> has a metadata entry, a transcript file and a
  queue file holding one prompt. \<open>deleteSession\<close> returns true, removes the metadata entry
  and the transcript file and evicts the in-memory conversation, but the queue file is still
  on disk afterwards, with the prompt in it. On the unknown id \<open>s2\<close> it returns false and
  changes nothing.
\<close>

theorem deleteSession_leaves_queue_file:
  "fst (deleteSession demo_service_env ''s1'' stored_service) = Inr True \<and>
   loadMetadata demo_service_env (snd (deleteSession demo_service_env ''s1'' stored_service)) = [] \<and>
   disk (snd (deleteSession demo_service_env ''s1'' stored_service))
     (sessionFile demo_service_env ''s1'') = None \<and>
   sessions (snd (deleteSession demo_service_env ''s1'' stored_service)) ''s1'' = None \<and>
   disk (snd (deleteSession demo_service_env ''s1'' stored_service))
     (queueFile demo_service_env ''s1'') = Some (QueueFile [demo_queued]) \<and>
   deleteSession demo_service_env ''s2'' stored_service = (Inr False, stored_service)"
  by (simp add: deleteSession_def loadMetadata_def saveMetadata_def fs_writeFile_def fs_unlink_def
      record_delete_def record_get_def objectPrototypeNames_def sessionFile_def queueFile_def demo_service_env_def stored_service_def
      Let_def)

subsection \<open>The follow-up queue\<close>

lemma memory_frame_refl [simp]: "memory_frame s s"
  by (simp add: memory_frame_def)

lemma persist_frame_refl [simp]: "persist_frame env sid s s"
  by (simp add: persist_frame_def)









lemma turn_frame_refl [simp]: "turn_frame env sid r k s s"
  by (simp add: turn_frame_def)








lemma turn_step_return:
  "turn_inv sid r k tn s \<Longrightarrow> turn_step env sid r k s (Inr tn, s)"
  by (simp add: turn_step_def)






























end
